theory Spec2Isabelle
  imports Main "HOL-Library.Word"
begin

section \<open>Go values\<close>

text \<open>
  A Go pointer \<^verbatim>\<open>*T\<close> is a \<open>T option\<close> (\<open>None\<close> is nil). A slice \<^verbatim>\<open>[]*T\<close> is a
  \<open>T option list option\<close>: \<open>None\<close> is the nil slice, which has length 0 like the empty
  one but is not deep-equal to it. A non-nil \<^verbatim>\<open>error\<close> is its message. A run-time
  panic is a value of its own.
\<close>

type_synonym go_error = string

datatype panic = NilDereference | IndexOutOfRange

text \<open>\<^verbatim>\<open>s[i]\<close> on a slice.\<close>

definition slice_index :: "'a list option \<Rightarrow> nat \<Rightarrow> panic + 'a" where
  "slice_index sl i =
     (case sl of
        None \<Rightarrow> Inl IndexOutOfRange
      | Some xs \<Rightarrow> if i < length xs then Inr (xs ! i) else Inl IndexOutOfRange)"

text \<open>
  Modelled from the spec: \<^verbatim>\<open>util.DeepEqual\<close> lives in \<^verbatim>\<open>pkg/util/types\<close>, which is not
  among the sources. The spec describes it as structural (deep) equality, not identity,
  sensitive to the order of list elements; on the option and list values used here that
  is HOL equality.
\<close>

definition DeepEqual :: "'a \<Rightarrow> 'a \<Rightarrow> bool" where
  "DeepEqual x y = (x = y)"

section \<open>The SDK's listener types (package elbv2)\<close>

text \<open>
  The structs of the cloud SDK, with the fields that \<^verbatim>\<open>listener.go\<close> reads or writes.
\<close>

record Certificate =
  CertificateArn :: "string option"

record Action =
  TargetGroupArn :: "string option"
  Type :: "string option"

record elbv2_Listener =
  Certificates :: "Certificate option list option"
  DefaultActions :: "Action option list option"
  ListenerArn :: "string option"
  LoadBalancerArn :: "string option"
  Port :: "64 word option"
  Protocol :: "string option"
  SslPolicy :: "string option"

record CreateListenerInput =
  cli_Certificates :: "Certificate option list option"
  cli_LoadBalancerArn :: "string option"
  cli_Protocol :: "string option"
  cli_Port :: "64 word option"
  cli_SslPolicy :: "string option"
  cli_DefaultActions :: "Action option list option"

record CreateListenerOutput =
  clo_Listeners :: "elbv2_Listener option list"

record ModifyListenerInput =
  mli_ListenerArn :: "string option"
  mli_Certificates :: "Certificate option list option"
  mli_Port :: "64 word option"
  mli_Protocol :: "string option"
  mli_SslPolicy :: "string option"
  mli_DefaultActions :: "Action option list option"

record ModifyListenerOutput =
  mlo_Listeners :: "elbv2_Listener option list"

section \<open>The listener and its collaborators\<close>

text \<open>
  \<^verbatim>\<open>Listener\<close> holds the pair \<^verbatim>\<open>ls.current\<close>, \<^verbatim>\<open>ls.desired\<close>, the owned rules and the
  \<^verbatim>\<open>deleted\<close> flag. The logger is left out: it only prints. What is kept of a logging
  call is the evaluation of its arguments, where a nil pointer is dereferenced.
\<close>

record 'rule Listener =
  ls_current :: "elbv2_Listener option"
  ls_desired :: "elbv2_Listener option"
  rules :: "'rule list"
  deleted :: bool

record PortData =
  pd_Port :: "64 word"
  pd_Scheme :: string

record NewDesiredListenerOptions =
  ndo_Port :: PortData
  ndo_CertificateArn :: "string option"
  ndo_SslPolicy :: "string option"

record NewCurrentListenerOptions =
  nco_Listener :: "elbv2_Listener option"

text \<open>
  \<^verbatim>\<open>ReconcileOptions\<close>: the load balancer's ARN and the target-group table. Its
  \<^verbatim>\<open>Eventf\<close> sink is modelled by the list of events of the state below.
\<close>

record 'tgs ReconcileOptions =
  ro_LoadBalancerArn :: "string option"
  TargetGroups :: "'tgs"

text \<open>
  The code outside \<^verbatim>\<open>listener.go\<close> that it calls is a parameter: the three operations
  of the control-plane client \<^verbatim>\<open>albelbv2.ELBV2svc\<close>, each returning Go's pair of a result
  and an error, and the two operations of the rules collaborator.
\<close>

record ('rule, 'tgs) env =
  CreateListener :: "CreateListenerInput \<Rightarrow> CreateListenerOutput option \<times> go_error option"
  ModifyListener :: "ModifyListenerInput \<Rightarrow> ModifyListenerOutput option \<times> go_error option"
  RemoveListener :: "string option \<Rightarrow> go_error option"
  DefaultRule :: "'rule list \<Rightarrow> 'rule option"
  Rule_TargetGroupArn :: "'rule \<Rightarrow> 'tgs \<Rightarrow> string option"

datatype call =
    CreateListenerCall CreateListenerInput
  | ModifyListenerCall ModifyListenerInput
  | RemoveListenerCall "string option"

datatype fmt_arg = ArgInt "64 word" | ArgStr string

text \<open>An event: type, reason, format string and the format's arguments.\<close>

datatype event = Event string string string "fmt_arg list"

definition EventTypeNormal :: string where
  "EventTypeNormal = ''Normal''"

definition EventTypeWarning :: string where
  "EventTypeWarning = ''Warning''"

text \<open>
  The state a method runs in: the listener, the control-plane calls issued so far and
  the events emitted so far. A method returns a panic or its Go result, and the state
  reached; a panic keeps the writes and calls made before it.
\<close>

record 'rule state =
  listener :: "'rule Listener"
  calls :: "call list"
  events :: "event list"

type_synonym ('a, 'rule) outcome = "(panic + 'a) \<times> 'rule state"

text \<open>\<^verbatim>\<open>rOpts.Eventf(...)\<close>: a nil \<^verbatim>\<open>rOpts\<close> panics on the field access.\<close>

definition Eventf :: "'tgs ReconcileOptions option \<Rightarrow> event \<Rightarrow> 'rule state \<Rightarrow> (unit, 'rule) outcome" where
  "Eventf rOpts e s =
     (case rOpts of
        None \<Rightarrow> (Inl NilDereference, s)
      | Some ro \<Rightarrow> (Inr (), s\<lparr>events := events s @ [e]\<rparr>))"

text \<open>The statement \<^verbatim>\<open>lsd.DefaultActions[0].TargetGroupArn = v\<close>.\<close>

definition assign_TargetGroupArn :: "elbv2_Listener option \<Rightarrow> string option \<Rightarrow> panic + elbv2_Listener" where
  "assign_TargetGroupArn lsd v =
     (case lsd of
        None \<Rightarrow> Inl NilDereference
      | Some d \<Rightarrow>
          (case DefaultActions d of
             None \<Rightarrow> Inl IndexOutOfRange
           | Some [] \<Rightarrow> Inl IndexOutOfRange
           | Some (None # as) \<Rightarrow> Inl NilDereference
           | Some (Some a # as) \<Rightarrow>
               Inr (d\<lparr>DefaultActions := Some (Some (a\<lparr>TargetGroupArn := v\<rparr>) # as)\<rparr>)))"

section \<open>Constructors\<close>

definition NewDesiredListener :: "NewDesiredListenerOptions option \<Rightarrow> panic + 'rule Listener" where
  "NewDesiredListener opt =
     (case opt of
        None \<Rightarrow> Inl NilDereference
      | Some o1 \<Rightarrow>
          let listener0 =
                \<lparr>Certificates = None,
                 DefaultActions = Some [Some \<lparr>TargetGroupArn = None, Type = Some ''forward''\<rparr>],
                 ListenerArn = None,
                 LoadBalancerArn = None,
                 Port = Some (pd_Port (ndo_Port o1)),
                 Protocol = Some ''HTTP'',
                 SslPolicy = None\<rparr>;
              listener1 =
                (if ndo_CertificateArn o1 \<noteq> None \<and> pd_Scheme (ndo_Port o1) = ''HTTPS''
                 then listener0\<lparr>Certificates := Some [Some \<lparr>CertificateArn = ndo_CertificateArn o1\<rparr>],
                                Protocol := Some ''HTTPS''\<rparr>
                 else listener0);
              listener2 =
                (if ndo_SslPolicy o1 \<noteq> None \<and> pd_Scheme (ndo_Port o1) = ''HTTPS''
                 then listener1\<lparr>SslPolicy := ndo_SslPolicy o1\<rparr>
                 else listener1)
          in Inr \<lparr>ls_current = None, ls_desired = Some listener2, rules = [], deleted = False\<rparr>)"

definition NewCurrentListener :: "NewCurrentListenerOptions option \<Rightarrow> panic + 'rule Listener" where
  "NewCurrentListener opt =
     (case opt of
        None \<Rightarrow> Inl NilDereference
      | Some o1 \<Rightarrow> Inr \<lparr>ls_current = nco_Listener o1, ls_desired = None, rules = [], deleted = False\<rparr>)"

section \<open>The three mutations\<close>

definition create :: "('rule, 'tgs) env \<Rightarrow> 'tgs ReconcileOptions option \<Rightarrow> 'rule state \<Rightarrow> (go_error option, 'rule) outcome" where
  "create env rOpts s =
     (case (ls_desired (listener s), rOpts) of
        (Some d0, Some ro) \<Rightarrow>
          let d1 = d0\<lparr>LoadBalancerArn := ro_LoadBalancerArn ro\<rparr>;
              s1 = s\<lparr>listener := (listener s)\<lparr>ls_desired := Some d1\<rparr>\<rparr>
          in (case (case DefaultRule env (rules (listener s1)) of
                      None \<Rightarrow> Inr d1
                    | Some defaultRule \<Rightarrow>
                        assign_TargetGroupArn (Some d1) (Rule_TargetGroupArn env defaultRule (TargetGroups ro))) of
                Inl p \<Rightarrow> (Inl p, s1)
              | Inr desired \<Rightarrow>
                  let s2 = s1\<lparr>listener := (listener s1)\<lparr>ls_desired := Some desired\<rparr>\<rparr>
                  in (case slice_index (DefaultActions desired) 0 of
                        Inl p \<Rightarrow> (Inl p, s2)
                      | Inr None \<Rightarrow> (Inl NilDereference, s2)
                      | Inr (Some a0) \<Rightarrow>
                          let inp = \<lparr>cli_Certificates = Certificates desired,
                                     cli_LoadBalancerArn = LoadBalancerArn desired,
                                     cli_Protocol = Protocol desired,
                                     cli_Port = Port desired,
                                     cli_SslPolicy = SslPolicy desired,
                                     cli_DefaultActions =
                                       Some [Some \<lparr>TargetGroupArn = TargetGroupArn a0, Type = Type a0\<rparr>]\<rparr>;
                              s3 = s2\<lparr>calls := calls s2 @ [CreateListenerCall inp]\<rparr>
                          in (case CreateListener env inp of
                                (out, Some err) \<Rightarrow>
                                  (case Port desired of
                                     None \<Rightarrow> (Inl NilDereference, s3)
                                   | Some p \<Rightarrow>
                                       (case Eventf rOpts
                                               (Event EventTypeWarning ''ERROR''
                                                  ''Error creating %v listener: %s'' [ArgInt p, ArgStr err]) s3 of
                                          (Inl q, s4) \<Rightarrow> (Inl q, s4)
                                        | (Inr u, s4) \<Rightarrow> (Inr (Some err), s4)))
                              | (None, None) \<Rightarrow> (Inl NilDereference, s3)
                              | (Some out, None) \<Rightarrow>
                                  (case clo_Listeners out of
                                     [] \<Rightarrow> (Inl IndexOutOfRange, s3)
                                   | x # xs \<Rightarrow>
                                       (Inr None, s3\<lparr>listener := (listener s3)\<lparr>ls_current := x\<rparr>\<rparr>)))))
      | (d, r) \<Rightarrow> (Inl NilDereference, s))"

definition modify :: "('rule, 'tgs) env \<Rightarrow> 'tgs ReconcileOptions option \<Rightarrow> 'rule state \<Rightarrow> (go_error option, 'rule) outcome" where
  "modify env rOpts s =
     (case ls_current (listener s) of
        None \<Rightarrow> create env rOpts s
      | Some cur \<Rightarrow>
          (case ls_desired (listener s) of
             None \<Rightarrow> (Inl NilDereference, s)
           | Some desired \<Rightarrow>
               let inp = \<lparr>mli_ListenerArn = ListenerArn cur,
                          mli_Certificates = Certificates desired,
                          mli_Port = Port desired,
                          mli_Protocol = Protocol desired,
                          mli_SslPolicy = SslPolicy desired,
                          mli_DefaultActions = DefaultActions desired\<rparr>;
                   s1 = s\<lparr>calls := calls s @ [ModifyListenerCall inp]\<rparr>
               in (case ModifyListener env inp of
                     (out, Some err) \<Rightarrow>
                       (case Port desired of
                          None \<Rightarrow> (Inl NilDereference, s1)
                        | Some p \<Rightarrow>
                            (case Eventf rOpts
                                    (Event EventTypeWarning ''ERROR''
                                       ''Error modifying %v listener: %s'' [ArgInt p, ArgStr err]) s1 of
                               (Inl q, s2) \<Rightarrow> (Inl q, s2)
                             | (Inr u, s2) \<Rightarrow> (Inr (Some err), s2)))
                   | (None, None) \<Rightarrow> (Inl NilDereference, s1)
                   | (Some out, None) \<Rightarrow>
                       (case mlo_Listeners out of
                          [] \<Rightarrow> (Inl IndexOutOfRange, s1)
                        | x # xs \<Rightarrow>
                            (Inr None, s1\<lparr>listener := (listener s1)\<lparr>ls_current := x\<rparr>\<rparr>)))))"

definition delete :: "('rule, 'tgs) env \<Rightarrow> 'tgs ReconcileOptions option \<Rightarrow> 'rule state \<Rightarrow> (go_error option, 'rule) outcome" where
  "delete env rOpts s =
     (case ls_current (listener s) of
        None \<Rightarrow> (Inl NilDereference, s)
      | Some cur \<Rightarrow>
          let s1 = s\<lparr>calls := calls s @ [RemoveListenerCall (ListenerArn cur)]\<rparr>
          in (case RemoveListener env (ListenerArn cur) of
                Some err \<Rightarrow>
                  (case Port cur of
                     None \<Rightarrow> (Inl NilDereference, s1)
                   | Some p \<Rightarrow>
                       (case Eventf rOpts
                               (Event EventTypeWarning ''ERROR''
                                  ''Error deleting %v listener: %s'' [ArgInt p, ArgStr err]) s1 of
                          (Inl q, s2) \<Rightarrow> (Inl q, s2)
                        | (Inr u, s2) \<Rightarrow>
                            (case ListenerArn cur of
                               None \<Rightarrow> (Inl NilDereference, s2)
                             | Some arn \<Rightarrow> (Inr (Some err), s2))))
              | None \<Rightarrow> (Inr None, s1\<lparr>listener := (listener s1)\<lparr>deleted := True\<rparr>\<rparr>)))"

section \<open>The diff\<close>

definition needsModification :: "('rule, 'tgs) env \<Rightarrow> 'tgs ReconcileOptions option \<Rightarrow> 'rule state \<Rightarrow> (bool, 'rule) outcome" where
  "needsModification env rOpts s =
     (let lsc = ls_current (listener s);
          lsd0 = ls_desired (listener s)
      in (case (case rOpts of
                  None \<Rightarrow> Inr lsd0
                | Some ro \<Rightarrow>
                    (case DefaultRule env (rules (listener s)) of
                       None \<Rightarrow> Inr lsd0
                     | Some defaultRule \<Rightarrow>
                         (case assign_TargetGroupArn lsd0
                                 (Rule_TargetGroupArn env defaultRule (TargetGroups ro)) of
                            Inl p \<Rightarrow> Inl p
                          | Inr d \<Rightarrow> Inr (Some d)))) of
            Inl p \<Rightarrow> (Inl p, s)
          | Inr lsd \<Rightarrow>
              let s1 = s\<lparr>listener := (listener s)\<lparr>ls_desired := lsd\<rparr>\<rparr>
              in (case (lsc, lsd) of
                    (None, None) \<Rightarrow> (Inr False, s1)
                  | (None, Some d) \<Rightarrow> (Inr True, s1)
                  | (Some c, None) \<Rightarrow> (Inl NilDereference, s1)
                  | (Some c, Some d) \<Rightarrow>
                      (Inr (if \<not> DeepEqual (Port c) (Port d) then True
                            else if \<not> DeepEqual (Protocol c) (Protocol d) then True
                            else if \<not> DeepEqual (Certificates c) (Certificates d) then True
                            else if \<not> DeepEqual (DefaultActions c) (DefaultActions d) then True
                            else if \<not> DeepEqual (SslPolicy c) (SslPolicy d) then True
                            else False), s1))))"

section \<open>Reconcile\<close>

text \<open>\<^verbatim>\<open>*l.ls.current.F\<close> for a pointer field \<open>F\<close> of the current snapshot.\<close>

definition current_field :: "(elbv2_Listener \<Rightarrow> 'a option) \<Rightarrow> 'rule state \<Rightarrow> panic + 'a" where
  "current_field f s =
     (case ls_current (listener s) of
        None \<Rightarrow> Inl NilDereference
      | Some c \<Rightarrow> (case f c of None \<Rightarrow> Inl NilDereference | Some v \<Rightarrow> Inr v))"

text \<open>
  The arguments of the closing \<^verbatim>\<open>Infof\<close> of the create and modify cases:
  \<^verbatim>\<open>*l.ls.current.ListenerArn, *l.ls.current.Port, *l.ls.current.Protocol\<close>.
\<close>

definition completed_args :: "'rule state \<Rightarrow> panic + unit" where
  "completed_args s =
     (case current_field ListenerArn s of
        Inl p \<Rightarrow> Inl p
      | Inr arn \<Rightarrow>
          (case current_field Port s of
             Inl p \<Rightarrow> Inl p
           | Inr port \<Rightarrow>
               (case current_field Protocol s of
                  Inl p \<Rightarrow> Inl p
                | Inr proto \<Rightarrow> Inr ())))"

definition Reconcile :: "('rule, 'tgs) env \<Rightarrow> 'tgs ReconcileOptions option \<Rightarrow> 'rule state \<Rightarrow> (go_error option, 'rule) outcome" where
  "Reconcile env rOpts s =
     (if ls_desired (listener s) = None then
        (if ls_current (listener s) = None then (Inr None, s)
         else
           (case delete env rOpts s of
              (Inl p, s1) \<Rightarrow> (Inl p, s1)
            | (Inr (Some err), s1) \<Rightarrow> (Inr (Some err), s1)
            | (Inr None, s1) \<Rightarrow>
                (case current_field Port s1 of
                   Inl p \<Rightarrow> (Inl p, s1)
                 | Inr port \<Rightarrow>
                     (case Eventf rOpts
                             (Event EventTypeNormal ''DELETE'' ''%v listener deleted'' [ArgInt port]) s1 of
                        (Inl q, s2) \<Rightarrow> (Inl q, s2)
                      | (Inr u, s2) \<Rightarrow> (Inr None, s2)))))
      else if ls_current (listener s) = None \<and> ls_desired (listener s) \<noteq> None then
        (case create env rOpts s of
           (Inl p, s1) \<Rightarrow> (Inl p, s1)
         | (Inr (Some err), s1) \<Rightarrow> (Inr (Some err), s1)
         | (Inr None, s1) \<Rightarrow>
             (case current_field Port s1 of
                Inl p \<Rightarrow> (Inl p, s1)
              | Inr port \<Rightarrow>
                  (case Eventf rOpts
                          (Event EventTypeNormal ''CREATE'' ''%v listener created'' [ArgInt port]) s1 of
                     (Inl q, s2) \<Rightarrow> (Inl q, s2)
                   | (Inr u, s2) \<Rightarrow>
                       (case completed_args s2 of
                          Inl q \<Rightarrow> (Inl q, s2)
                        | Inr v \<Rightarrow> (Inr None, s2)))))
      else
        (case needsModification env rOpts s of
           (Inl p, s0) \<Rightarrow> (Inl p, s0)
         | (Inr False, s0) \<Rightarrow> (Inr None, s0)
         | (Inr True, s0) \<Rightarrow>
             (case modify env rOpts s0 of
                (Inl p, s1) \<Rightarrow> (Inl p, s1)
              | (Inr (Some err), s1) \<Rightarrow> (Inr (Some err), s1)
              | (Inr None, s1) \<Rightarrow>
                  (case current_field Port s1 of
                     Inl p \<Rightarrow> (Inl p, s1)
                   | Inr port \<Rightarrow>
                       (case Eventf rOpts
                               (Event EventTypeNormal ''MODIFY'' ''%v listener modified'' [ArgInt port]) s1 of
                          (Inl q, s2) \<Rightarrow> (Inl q, s2)
                        | (Inr u, s2) \<Rightarrow>
                            (case completed_args s2 of
                               Inl q \<Rightarrow> (Inl q, s2)
                             | Inr v \<Rightarrow> (Inr None, s2)))))))"

section \<open>Vocabulary of the properties\<close>

text \<open>
  The data model gives every snapshot one default action. What the code needs of it is
  that \<^verbatim>\<open>DefaultActions[0]\<close> exists and is not nil.
\<close>

definition has_default_action :: "elbv2_Listener \<Rightarrow> bool" where
  "has_default_action d =
     (case DefaultActions d of
        None \<Rightarrow> False
      | Some [] \<Rightarrow> False
      | Some (None # as) \<Rightarrow> False
      | Some (Some a # as) \<Rightarrow> True)"

definition desired_has_default_action :: "'rule Listener \<Rightarrow> bool" where
  "desired_has_default_action l =
     (case ls_desired l of None \<Rightarrow> True | Some d \<Rightarrow> has_default_action d)"

datatype action = NoOp | CreateAction | ModifyAction | DeleteAction

text \<open>
  The priority table of the specification, in its own words: desired absent first
  (no-op when current is absent too, delete otherwise), then current absent (create),
  then a detected difference (modify), otherwise no-op.
\<close>

definition classify :: "bool \<Rightarrow> bool \<Rightarrow> bool \<Rightarrow> action" where
  "classify current_present desired_present diff =
     (if \<not> desired_present then (if \<not> current_present then NoOp else DeleteAction)
      else if \<not> current_present then CreateAction
      else if diff then ModifyAction
      else NoOp)"

text \<open>The action that the control-plane calls of one reconciliation amount to.\<close>

fun performed :: "call list \<Rightarrow> action option" where
  "performed [] = Some NoOp"
| "performed [CreateListenerCall inp] = Some CreateAction"
| "performed [ModifyListenerCall inp] = Some ModifyAction"
| "performed [RemoveListenerCall arn] = Some DeleteAction"
| "performed cs = None"

text \<open>
  The five compared fields of two snapshots are deep-equal.
\<close>

definition fields_equal :: "elbv2_Listener \<Rightarrow> elbv2_Listener \<Rightarrow> bool" where
  "fields_equal c d =
     (DeepEqual (Port c) (Port d) \<and> DeepEqual (Protocol c) (Protocol d) \<and>
      DeepEqual (Certificates c) (Certificates d) \<and>
      DeepEqual (DefaultActions c) (DefaultActions d) \<and>
      DeepEqual (SslPolicy c) (SslPolicy d))"

section \<open>Test doubles\<close>

text \<open>
  A control plane that echoes a request back with an ARN assigned, one that refuses every
  request, and a rules collaborator whose rules are service names: the first rule is the
  default one, and its target group is looked up in an association list.
\<close>

definition echo_CreateListener :: "CreateListenerInput \<Rightarrow> CreateListenerOutput option \<times> go_error option" where
  "echo_CreateListener inp =
     (Some \<lparr>clo_Listeners =
        [Some \<lparr>Certificates = cli_Certificates inp,
               DefaultActions = cli_DefaultActions inp,
               ListenerArn = Some ''arn:listener/1'',
               LoadBalancerArn = cli_LoadBalancerArn inp,
               Port = cli_Port inp,
               Protocol = cli_Protocol inp,
               SslPolicy = cli_SslPolicy inp\<rparr>]\<rparr>, None)"

definition echo_ModifyListener :: "ModifyListenerInput \<Rightarrow> ModifyListenerOutput option \<times> go_error option" where
  "echo_ModifyListener inp =
     (Some \<lparr>mlo_Listeners =
        [Some \<lparr>Certificates = mli_Certificates inp,
               DefaultActions = mli_DefaultActions inp,
               ListenerArn = mli_ListenerArn inp,
               LoadBalancerArn = Some ''arn:lb/1'',
               Port = mli_Port inp,
               Protocol = mli_Protocol inp,
               SslPolicy = mli_SslPolicy inp\<rparr>]\<rparr>, None)"

definition ok_RemoveListener :: "string option \<Rightarrow> go_error option" where
  "ok_RemoveListener arn = None"

definition failing_CreateListener :: "CreateListenerInput \<Rightarrow> CreateListenerOutput option \<times> go_error option" where
  "failing_CreateListener inp = (None, Some ''AccessDenied'')"

definition failing_ModifyListener :: "ModifyListenerInput \<Rightarrow> ModifyListenerOutput option \<times> go_error option" where
  "failing_ModifyListener inp = (None, Some ''AccessDenied'')"

definition failing_RemoveListener :: "string option \<Rightarrow> go_error option" where
  "failing_RemoveListener arn = Some ''AccessDenied''"

definition first_rule :: "string list \<Rightarrow> string option" where
  "first_rule rs = (case rs of [] \<Rightarrow> None | r # rest \<Rightarrow> Some r)"

definition lookup_arn :: "string \<Rightarrow> (string \<times> string) list \<Rightarrow> string option" where
  "lookup_arn r tgs = map_of tgs r"

definition env_ok :: "(string, (string \<times> string) list) env" where
  "env_ok =
     \<lparr>CreateListener = echo_CreateListener,
      ModifyListener = echo_ModifyListener,
      RemoveListener = ok_RemoveListener,
      DefaultRule = first_rule,
      Rule_TargetGroupArn = lookup_arn\<rparr>"

definition env_failing :: "(string, (string \<times> string) list) env" where
  "env_failing =
     \<lparr>CreateListener = failing_CreateListener,
      ModifyListener = failing_ModifyListener,
      RemoveListener = failing_RemoveListener,
      DefaultRule = first_rule,
      Rule_TargetGroupArn = lookup_arn\<rparr>"

definition opts1 :: "(string \<times> string) list ReconcileOptions" where
  "opts1 = \<lparr>ro_LoadBalancerArn = Some ''arn:lb/1'', TargetGroups = [(''svc-a'', ''arn:tg/a'')]\<rparr>"

text \<open>A snapshot with one forward action to the given target group.\<close>

definition snapshot :: "string option \<Rightarrow> string option \<Rightarrow> string option \<Rightarrow> string option \<Rightarrow> elbv2_Listener" where
  "snapshot arn lb tg pol =
     \<lparr>Certificates = Some [Some \<lparr>CertificateArn = Some ''cert-1''\<rparr>],
      DefaultActions = Some [Some \<lparr>TargetGroupArn = tg, Type = Some ''forward''\<rparr>],
      ListenerArn = arn,
      LoadBalancerArn = lb,
      Port = Some 443,
      Protocol = Some ''HTTPS'',
      SslPolicy = pol\<rparr>"

definition st :: "elbv2_Listener option \<Rightarrow> elbv2_Listener option \<Rightarrow> string list \<Rightarrow> string state" where
  "st c d rs =
     \<lparr>listener = \<lparr>ls_current = c, ls_desired = d, rules = rs, deleted = False\<rparr>,
      calls = [], events = []\<rparr>"

section \<open>The constructor as the specification words it\<close>

text \<open>
  The desired snapshot in the words of the specification: HTTP by default; upgraded to
  HTTPS, with the certificate attached and the SSL policy if one is provided, only when a
  certificate is supplied and the scheme is HTTPS; one forward action without target group.
\<close>

definition desired_by_spec :: "NewDesiredListenerOptions \<Rightarrow> elbv2_Listener" where
  "desired_by_spec o1 =
     (if ndo_CertificateArn o1 \<noteq> None \<and> pd_Scheme (ndo_Port o1) = ''HTTPS''
      then \<lparr>Certificates = Some [Some \<lparr>CertificateArn = ndo_CertificateArn o1\<rparr>],
            DefaultActions = Some [Some \<lparr>TargetGroupArn = None, Type = Some ''forward''\<rparr>],
            ListenerArn = None,
            LoadBalancerArn = None,
            Port = Some (pd_Port (ndo_Port o1)),
            Protocol = Some ''HTTPS'',
            SslPolicy = ndo_SslPolicy o1\<rparr>
      else \<lparr>Certificates = None,
            DefaultActions = Some [Some \<lparr>TargetGroupArn = None, Type = Some ''forward''\<rparr>],
            ListenerArn = None,
            LoadBalancerArn = None,
            Port = Some (pd_Port (ndo_Port o1)),
            Protocol = Some ''HTTP'',
            SslPolicy = None\<rparr>)"

definition https_without_certificate :: NewDesiredListenerOptions where
  "https_without_certificate =
     \<lparr>ndo_Port = \<lparr>pd_Port = 443, pd_Scheme = ''HTTPS''\<rparr>,
      ndo_CertificateArn = None,
      ndo_SslPolicy = Some ''ELBSecurityPolicy-2016-08''\<rparr>"

section \<open>A faithful control plane\<close>

text \<open>
  The control plane echoes a create request back: the answer carries a non-empty ARN and
  the fields of the request.
\<close>

definition echoes :: "CreateListenerInput \<Rightarrow> elbv2_Listener \<Rightarrow> bool" where
  "echoes inp e =
     (ListenerArn e \<noteq> None \<and> ListenerArn e \<noteq> Some [] \<and>
      Certificates e = cli_Certificates inp \<and>
      DefaultActions e = cli_DefaultActions inp \<and>
      LoadBalancerArn e = cli_LoadBalancerArn inp \<and>
      Port e = cli_Port inp \<and>
      Protocol e = cli_Protocol inp \<and>
      SslPolicy e = cli_SslPolicy inp)"

section \<open>Unfolding sets\<close>

lemmas fixture_defs = env_ok_def env_failing_def opts1_def snapshot_def st_def
  echo_CreateListener_def echo_ModifyListener_def ok_RemoveListener_def failing_CreateListener_def
  failing_ModifyListener_def failing_RemoveListener_def first_rule_def lookup_arn_def

section \<open>Control-plane calls of each method\<close>

lemma Eventf_calls: "calls (snd (Eventf rOpts e s)) = calls s"
  by (simp add: Eventf_def split: option.splits)

lemma Eventf_listener: "listener (snd (Eventf rOpts e s)) = listener s"
  by (simp add: Eventf_def split: option.splits)

lemma delete_calls:
  "ls_current (listener s) = Some cur \<Longrightarrow>
   calls (snd (delete env rOpts s)) = calls s @ [RemoveListenerCall (ListenerArn cur)]"
  by (auto simp: delete_def Eventf_def Let_def split: option.splits sum.splits prod.splits)

lemma create_calls:
  "calls (snd (create env rOpts s)) = calls s \<or>
   (\<exists>inp. calls (snd (create env rOpts s)) = calls s @ [CreateListenerCall inp])"
  by (auto simp: create_def Eventf_def Let_def
      split: option.splits sum.splits prod.splits list.splits)

lemma create_calls_ok:
  "rOpts = Some ro \<Longrightarrow> ls_desired (listener s) = Some d \<Longrightarrow> has_default_action d \<Longrightarrow>
   \<exists>inp. calls (snd (create env rOpts s)) = calls s @ [CreateListenerCall inp]"
  by (auto simp: create_def Eventf_def Let_def has_default_action_def assign_TargetGroupArn_def
        slice_index_def
      split: option.splits sum.splits prod.splits list.splits)

lemma modify_calls:
  "ls_current (listener s) = Some c \<Longrightarrow>
   calls (snd (modify env rOpts s)) = calls s \<or>
   (\<exists>inp. calls (snd (modify env rOpts s)) = calls s @ [ModifyListenerCall inp])"
  by (auto simp: modify_def Eventf_def Let_def
      split: option.splits sum.splits prod.splits list.splits)

lemma modify_calls_ok:
  "ls_current (listener s) = Some c \<Longrightarrow> ls_desired (listener s) = Some d \<Longrightarrow>
   \<exists>inp. calls (snd (modify env rOpts s)) = calls s @ [ModifyListenerCall inp]"
  by (auto simp: modify_def Eventf_def Let_def
      split: option.splits sum.splits prod.splits list.splits)

lemma needsModification_calls: "calls (snd (needsModification env rOpts s)) = calls s"
  by (auto simp: needsModification_def Let_def
      split: option.splits sum.splits prod.splits list.splits)

lemma needsModification_current:
  "ls_current (listener (snd (needsModification env rOpts s))) = ls_current (listener s)"
  by (auto simp: needsModification_def Let_def
      split: option.splits sum.splits prod.splits list.splits)

lemma needsModification_desired_present:
  "ls_desired (listener s) = Some d \<Longrightarrow>
   \<exists>d'. ls_desired (listener (snd (needsModification env rOpts s))) = Some d'"
  by (auto simp: needsModification_def Let_def
      split: option.splits sum.splits prod.splits list.splits)

lemma needsModification_returns:
  "ls_desired (listener s) = Some d \<Longrightarrow> has_default_action d \<Longrightarrow>
   \<exists>b. fst (needsModification env rOpts s) = Inr b"
  by (auto simp: needsModification_def Let_def has_default_action_def assign_TargetGroupArn_def
      split: option.splits sum.splits prod.splits list.splits)

section \<open>The cases of Reconcile\<close>

lemma Reconcile_both_absent:
  "ls_current (listener s) = None \<Longrightarrow> ls_desired (listener s) = None \<Longrightarrow>
   Reconcile env rOpts s = (Inr None, s)"
  by (simp add: Reconcile_def)

lemma Reconcile_delete_calls:
  assumes "ls_current (listener s) = Some c" and "ls_desired (listener s) = None"
  shows "calls (snd (Reconcile env rOpts s)) = calls s @ [RemoveListenerCall (ListenerArn c)]"
  using assms delete_calls[of s c env rOpts]
  by (auto simp: Reconcile_def Eventf_def split: option.splits sum.splits prod.splits)

lemma Reconcile_create_calls:
  assumes "ls_current (listener s) = None" and "ls_desired (listener s) = Some d"
  shows "calls (snd (Reconcile env rOpts s)) = calls (snd (create env rOpts s))"
  using assms
  by (auto simp: Reconcile_def Eventf_def split: option.splits sum.splits prod.splits)

lemma Reconcile_modify_calls:
  assumes "ls_current (listener s) = Some c" and "ls_desired (listener s) = Some d"
    and "needsModification env rOpts s = (Inr True, s0)"
  shows "calls (snd (Reconcile env rOpts s)) = calls (snd (modify env rOpts s0))"
  using assms
  by (auto simp: Reconcile_def Eventf_def split: option.splits sum.splits prod.splits)

lemma Reconcile_noop:
  assumes "ls_current (listener s) = Some c" and "ls_desired (listener s) = Some d"
    and "needsModification env rOpts s = (Inr False, s0)"
  shows "Reconcile env rOpts s = (Inr None, s0)"
  using assms
  by (auto simp: Reconcile_def Eventf_def split: option.splits sum.splits prod.splits)

lemma Reconcile_diff_panic:
  assumes "ls_current (listener s) = Some c" and "ls_desired (listener s) = Some d"
    and "needsModification env rOpts s = (Inl p, s0)"
  shows "Reconcile env rOpts s = (Inl p, s0)"
  using assms
  by (auto simp: Reconcile_def Eventf_def split: option.splits sum.splits prod.splits)

lemma performed_le: "performed cs = Some a \<Longrightarrow> length cs \<le> 1"
  by (induction cs rule: performed.induct) simp_all

lemma Reconcile_calls_at_most_one:
  "\<exists>cs. calls (snd (Reconcile env rOpts s)) = calls s @ cs \<and> length cs \<le> 1"
proof (cases "ls_desired (listener s)")
  case None
  show ?thesis
  proof (cases "ls_current (listener s)")
    case N: None
    with None show ?thesis by (simp add: Reconcile_both_absent)
  next
    case (Some c)
    with None show ?thesis by (simp add: Reconcile_delete_calls)
  qed
next
  case (Some d)
  show ?thesis
  proof (cases "ls_current (listener s)")
    case None
    with Some create_calls[of env rOpts s] show ?thesis
      by (auto simp: Reconcile_create_calls)
  next
    case C: (Some c)
    obtain r s0 where nm: "needsModification env rOpts s = (r, s0)"
      by (cases "needsModification env rOpts s")
    have c0: "calls s0 = calls s"
      using needsModification_calls[of env rOpts s] nm by simp
    have cur0: "ls_current (listener s0) = Some c"
      using needsModification_current[of env rOpts s] nm C by simp
    show ?thesis
    proof (cases r)
      case (Inl p)
      with nm Some C c0 show ?thesis by (simp add: Reconcile_diff_panic)
    next
      case (Inr b)
      show ?thesis
      proof (cases b)
        case True
        with Inr nm Some C c0 modify_calls[OF cur0, of env rOpts] show ?thesis
          by (auto simp: Reconcile_modify_calls)
      next
        case False
        with Inr nm Some C c0 show ?thesis by (simp add: Reconcile_noop)
      qed
    qed
  qed
qed

lemma Reconcile_performs_classified:
  assumes ro: "rOpts = Some ro" and inv: "desired_has_default_action (listener s)"
  shows "\<exists>cs. calls (snd (Reconcile env rOpts s)) = calls s @ cs \<and>
      performed cs =
        Some (classify (ls_current (listener s) \<noteq> None) (ls_desired (listener s) \<noteq> None)
                (fst (needsModification env rOpts s) = Inr True))"
proof (cases "ls_desired (listener s)")
  case None
  show ?thesis
  proof (cases "ls_current (listener s)")
    case N: None
    with None show ?thesis by (simp add: Reconcile_both_absent classify_def)
  next
    case (Some c)
    with None show ?thesis by (simp add: Reconcile_delete_calls classify_def)
  qed
next
  case (Some d)
  have hd: "has_default_action d"
    using inv Some by (simp add: desired_has_default_action_def)
  show ?thesis
  proof (cases "ls_current (listener s)")
    case None
    with Some create_calls_ok[OF ro Some hd, of env] show ?thesis
      by (auto simp: Reconcile_create_calls classify_def)
  next
    case C: (Some c)
    obtain r s0 where nm: "needsModification env rOpts s = (r, s0)"
      by (cases "needsModification env rOpts s")
    have c0: "calls s0 = calls s"
      using needsModification_calls[of env rOpts s] nm by simp
    have cur0: "ls_current (listener s0) = Some c"
      using needsModification_current[of env rOpts s] nm C by simp
    obtain d' where des0: "ls_desired (listener s0) = Some d'"
      using needsModification_desired_present[OF Some, of env rOpts] nm by auto
    obtain b where b: "r = Inr b"
      using needsModification_returns[OF Some hd, of env rOpts] nm by auto
    show ?thesis
    proof (cases b)
      case True
      with b nm Some C c0 modify_calls_ok[OF cur0 des0, of env rOpts] show ?thesis
        by (auto simp: Reconcile_modify_calls classify_def)
    next
      case False
      with b nm Some C c0 show ?thesis by (simp add: Reconcile_noop classify_def)
    qed
  qed
qed

section \<open>Claims\<close>

text \<open>
  C1. Reconcile performs at most one control-plane call, whatever the pair and the
  options. For options that are not nil and a desired snapshot that carries its default
  action, the calls it makes are those of exactly one of no-op, create, modify and delete,
  the one the priority table selects: desired absent first, then current absent, then the
  diff, then no-op. With both sides absent it makes no call, changes nothing and returns
  nil.
\<close>

theorem Reconcile_classification:
  "(\<exists>cs. calls (snd (Reconcile env rOpts s)) = calls s @ cs \<and> length cs \<le> 1 \<and>
      (rOpts \<noteq> None \<and> desired_has_default_action (listener s) \<longrightarrow>
         performed cs =
           Some (classify (ls_current (listener s) \<noteq> None) (ls_desired (listener s) \<noteq> None)
                   (fst (needsModification env rOpts s) = Inr True)))) \<and>
   (ls_current (listener s) = None \<and> ls_desired (listener s) = None \<longrightarrow>
      Reconcile env rOpts s = (Inr None, s))"
proof (intro conjI impI)
  show "\<exists>cs. calls (snd (Reconcile env rOpts s)) = calls s @ cs \<and> length cs \<le> 1 \<and>
      (rOpts \<noteq> None \<and> desired_has_default_action (listener s) \<longrightarrow>
         performed cs =
           Some (classify (ls_current (listener s) \<noteq> None) (ls_desired (listener s) \<noteq> None)
                   (fst (needsModification env rOpts s) = Inr True)))"
  proof (cases "rOpts \<noteq> None \<and> desired_has_default_action (listener s)")
    case True
    then obtain ro where "rOpts = Some ro" by auto
    with True Reconcile_performs_classified[of rOpts ro s env] show ?thesis
      using performed_le by blast
  next
    case False
    with Reconcile_calls_at_most_one[of env rOpts s] show ?thesis by blast
  qed
next
  assume "ls_current (listener s) = None \<and> ls_desired (listener s) = None"
  then show "Reconcile env rOpts s = (Inr None, s)"
    by (simp add: Reconcile_both_absent)
qed

theorem Reconcile_classification_witness:
  "(Some opts1 \<noteq> None \<and>
    desired_has_default_action
      (listener (st (Some (snapshot (Some ''arn:listener/1'') (Some ''arn:lb/1'') (Some ''arn:tg/a'') None))
                    (Some (snapshot None None None (Some ''ELBSecurityPolicy-2016-08''))) [''svc-a'']))) \<and>
   (\<exists>cs. calls (snd (Reconcile env_ok (Some opts1)
                 (st (Some (snapshot (Some ''arn:listener/1'') (Some ''arn:lb/1'') (Some ''arn:tg/a'') None))
                     (Some (snapshot None None None (Some ''ELBSecurityPolicy-2016-08''))) [''svc-a'']))) = cs \<and>
          performed cs = Some ModifyAction)"
  using Reconcile_classification [of env_ok "Some opts1"
      "st (Some (snapshot (Some ''arn:listener/1'') (Some ''arn:lb/1'') (Some ''arn:tg/a'') None))
          (Some (snapshot None None None (Some ''ELBSecurityPolicy-2016-08''))) [''svc-a'']"]
  by (simp add: fixture_defs needsModification_def assign_TargetGroupArn_def DeepEqual_def
      desired_has_default_action_def has_default_action_def classify_def)

text \<open>
  C6. With current absent and desired present, modify is create: the same result, the
  same state, the same control-plane request and the same events, for the same options.
\<close>

theorem modify_self_heals:
  "ls_current (listener s) = None \<and> ls_desired (listener s) \<noteq> None \<longrightarrow>
     modify env rOpts s = create env rOpts s"
  by (simp add: modify_def)

theorem modify_self_heals_witness:
  "ls_current (listener (st None (Some (snapshot None None None None)) [''svc-a''])) = None \<and>
   ls_desired (listener (st None (Some (snapshot None None None None)) [''svc-a''])) \<noteq> None \<and>
   modify env_ok (Some opts1) (st None (Some (snapshot None None None None)) [''svc-a'']) =
   create env_ok (Some opts1) (st None (Some (snapshot None None None None)) [''svc-a'']) \<and>
   fst (modify env_ok (Some opts1) (st None (Some (snapshot None None None None)) [''svc-a''])) = Inr None \<and>
   ls_current (listener (snd (modify env_ok (Some opts1)
       (st None (Some (snapshot None None None None)) [''svc-a''])))) =
     Some (snapshot (Some ''arn:listener/1'') (Some ''arn:lb/1'') (Some ''arn:tg/a'') None)"
  using modify_self_heals [of "st None (Some (snapshot None None None None)) [''svc-a'']" env_ok "Some opts1"]
  by (simp add: fixture_defs create_def assign_TargetGroupArn_def slice_index_def)

text \<open>
  C7. With desired absent and current present, a delete whose remove request succeeds
  returns nil, has issued exactly one remove call, addressed by current's ARN, and has
  set \<open>deleted\<close>; every other field of the listener, current included, and the events are
  as before. Reconcile in that state issues that one call and sets that flag. With both
  sides absent Reconcile issues no call and returns nil.
\<close>

theorem delete_frame:
  "(ls_current (listener s) = Some cur \<and> ls_desired (listener s) = None \<and>
    RemoveListener env (ListenerArn cur) = None \<longrightarrow>
      delete env rOpts s =
        (Inr None, s\<lparr>listener := (listener s)\<lparr>deleted := True\<rparr>,
                      calls := calls s @ [RemoveListenerCall (ListenerArn cur)]\<rparr>) \<and>
      calls (snd (Reconcile env rOpts s)) = calls s @ [RemoveListenerCall (ListenerArn cur)] \<and>
      listener (snd (Reconcile env rOpts s)) = (listener s)\<lparr>deleted := True\<rparr>) \<and>
   (ls_current (listener s) = None \<and> ls_desired (listener s) = None \<longrightarrow>
      Reconcile env rOpts s = (Inr None, s))"
  by (auto simp: delete_def Reconcile_def Eventf_def current_field_def split: option.splits)

theorem delete_frame_witness:
  "delete env_ok (Some opts1)
      (st (Some (snapshot (Some ''arn:listener/1'') (Some ''arn:lb/1'') (Some ''arn:tg/a'') None)) None []) =
     (Inr None,
      \<lparr>listener =
         \<lparr>ls_current = Some (snapshot (Some ''arn:listener/1'') (Some ''arn:lb/1'') (Some ''arn:tg/a'') None),
          ls_desired = None, rules = [], deleted = True\<rparr>,
       calls = [RemoveListenerCall (Some ''arn:listener/1'')], events = []\<rparr>) \<and>
   Reconcile env_ok (Some opts1) (st None None []) = (Inr None, st None None [])"
  using delete_frame [of "st (Some (snapshot (Some ''arn:listener/1'') (Some ''arn:lb/1'') (Some ''arn:tg/a'') None)) None []"
       "snapshot (Some ''arn:listener/1'') (Some ''arn:lb/1'') (Some ''arn:tg/a'') None" env_ok "Some opts1"]
     delete_frame [of "st None None []" "snapshot None None None None" env_ok "Some opts1"]
  by (simp add: fixture_defs)

text \<open>
  C5, as stated, fails: with scheme HTTPS, an SSL policy and no certificate, the snapshot
  built stays HTTP and yet carries the SSL policy, where the specification's wording
  attaches it only on the upgrade to HTTPS.
\<close>

theorem NewDesiredListener_ssl_policy_counterexample:
  "(NewDesiredListener (Some https_without_certificate) :: panic + string Listener) =
     Inr \<lparr>ls_current = None,
          ls_desired =
            Some \<lparr>Certificates = None,
                  DefaultActions = Some [Some \<lparr>TargetGroupArn = None, Type = Some ''forward''\<rparr>],
                  ListenerArn = None,
                  LoadBalancerArn = None,
                  Port = Some 443,
                  Protocol = Some ''HTTP'',
                  SslPolicy = Some ''ELBSecurityPolicy-2016-08''\<rparr>,
          rules = [], deleted = False\<rparr> \<and>
   SslPolicy (desired_by_spec https_without_certificate) = None"
  by (simp add: NewDesiredListener_def desired_by_spec_def https_without_certificate_def)

text \<open>
  C5, amended. The snapshot built has the descriptor's port, no ARN, and one forward
  action without target group. It has protocol HTTPS and the certificate exactly when a
  certificate is supplied and the scheme is HTTPS, and protocol HTTP with no certificate
  otherwise. The SSL policy is attached whenever one is provided and the scheme is HTTPS,
  with or without a certificate. So the snapshot is the one the specification words,
  except for scheme HTTPS with an SSL policy and no certificate.
\<close>

theorem NewDesiredListener_builds:
  "(NewDesiredListener (Some o1) :: panic + 'rule Listener) =
     Inr \<lparr>ls_current = None,
          ls_desired =
            Some \<lparr>Certificates =
                    (if ndo_CertificateArn o1 \<noteq> None \<and> pd_Scheme (ndo_Port o1) = ''HTTPS''
                     then Some [Some \<lparr>CertificateArn = ndo_CertificateArn o1\<rparr>] else None),
                  DefaultActions = Some [Some \<lparr>TargetGroupArn = None, Type = Some ''forward''\<rparr>],
                  ListenerArn = None,
                  LoadBalancerArn = None,
                  Port = Some (pd_Port (ndo_Port o1)),
                  Protocol =
                    (if ndo_CertificateArn o1 \<noteq> None \<and> pd_Scheme (ndo_Port o1) = ''HTTPS''
                     then Some ''HTTPS'' else Some ''HTTP''),
                  SslPolicy =
                    (if pd_Scheme (ndo_Port o1) = ''HTTPS'' then ndo_SslPolicy o1 else None)\<rparr>,
          rules = [], deleted = False\<rparr> \<and>
   (ndo_CertificateArn o1 \<noteq> None \<or> pd_Scheme (ndo_Port o1) \<noteq> ''HTTPS'' \<or> ndo_SslPolicy o1 = None \<longrightarrow>
      (NewDesiredListener (Some o1) :: panic + 'rule Listener) =
        Inr \<lparr>ls_current = None, ls_desired = Some (desired_by_spec o1), rules = [], deleted = False\<rparr>)"
  by (auto simp: NewDesiredListener_def desired_by_spec_def Let_def)

theorem NewDesiredListener_builds_witness:
  "(NewDesiredListener
      (Some \<lparr>ndo_Port = \<lparr>pd_Port = 443, pd_Scheme = ''HTTPS''\<rparr>,
             ndo_CertificateArn = Some ''cert-1'', ndo_SslPolicy = None\<rparr>) :: panic + string Listener) =
     Inr \<lparr>ls_current = None, ls_desired = Some (snapshot None None None None),
          rules = [], deleted = False\<rparr>"
  using NewDesiredListener_builds [where 'rule = string, of "\<lparr>ndo_Port = \<lparr>pd_Port = 443, pd_Scheme = ''HTTPS''\<rparr>,
             ndo_CertificateArn = Some ''cert-1'', ndo_SslPolicy = None\<rparr>"]
  by (simp add: snapshot_def)

text \<open>
  C3. With both snapshots present, and the target-group resolution well defined (nil
  options, no default rule, or a desired snapshot carrying its default action),
  needsModification returns false exactly when port, protocol, certificate list,
  default-action list and SSL policy of current are deep-equal to those of the desired
  snapshot, as it stands after the resolution; a differing SSL policy alone makes it return
  true. With current absent and desired present it returns true.
\<close>

theorem needsModification_diff:
  "(ls_current (listener s) = Some c \<and> ls_desired (listener s) = Some d \<and>
    (rOpts = None \<or> DefaultRule env (rules (listener s)) = None \<or> has_default_action d) \<longrightarrow>
      (\<exists>d'. ls_desired (listener (snd (needsModification env rOpts s))) = Some d' \<and>
            fst (needsModification env rOpts s) = Inr (\<not> fields_equal c d') \<and>
            (\<not> DeepEqual (SslPolicy c) (SslPolicy d') \<longrightarrow>
               fst (needsModification env rOpts s) = Inr True))) \<and>
   (ls_current (listener s) = None \<and> ls_desired (listener s) = Some d \<and>
    (rOpts = None \<or> DefaultRule env (rules (listener s)) = None \<or> has_default_action d) \<longrightarrow>
      fst (needsModification env rOpts s) = Inr True)"
  by (auto simp: needsModification_def Let_def has_default_action_def assign_TargetGroupArn_def
        fields_equal_def
      split: option.splits sum.splits list.splits)


theorem needsModification_diff_witness:
  "fst (needsModification env_ok (Some opts1)
         (st (Some (snapshot (Some ''arn:listener/1'') (Some ''arn:lb/1'') (Some ''arn:tg/a'') None))
             (Some (snapshot None None None (Some ''ELBSecurityPolicy-2016-08''))) [''svc-a''])) = Inr True \<and>
   fst (needsModification env_ok (Some opts1)
         (st (Some (snapshot (Some ''arn:listener/1'') (Some ''arn:lb/1'') (Some ''arn:tg/a'') None))
             (Some (snapshot None None None None)) [''svc-a''])) = Inr False \<and>
   fst (needsModification env_ok (Some opts1)
         (st None (Some (snapshot None None None None)) [''svc-a''])) = Inr True"
  using needsModification_diff [where rOpts = "Some opts1" and env = env_ok
      and s = "st (Some (snapshot (Some ''arn:listener/1'') (Some ''arn:lb/1'') (Some ''arn:tg/a'') None))
             (Some (snapshot None None None (Some ''ELBSecurityPolicy-2016-08''))) [''svc-a'']"
      and c = "snapshot (Some ''arn:listener/1'') (Some ''arn:lb/1'') (Some ''arn:tg/a'') None"
      and d = "snapshot None None None (Some ''ELBSecurityPolicy-2016-08'')"]
    needsModification_diff [where rOpts = "Some opts1" and env = env_ok
      and s = "st (Some (snapshot (Some ''arn:listener/1'') (Some ''arn:lb/1'') (Some ''arn:tg/a'') None))
             (Some (snapshot None None None None)) [''svc-a'']"
      and c = "snapshot (Some ''arn:listener/1'') (Some ''arn:lb/1'') (Some ''arn:tg/a'') None"
      and d = "snapshot None None None None"]
    needsModification_diff [where rOpts = "Some opts1" and env = env_ok
      and s = "st None (Some (snapshot None None None None)) [''svc-a'']"
      and c = "snapshot None None None None"
      and d = "snapshot None None None None"]
  by (simp add: fixture_defs needsModification_def assign_TargetGroupArn_def DeepEqual_def
      has_default_action_def fields_equal_def)

section \<open>Target-group resolution\<close>

lemma needsModification_writes:
  assumes "rOpts = Some ro" and "DefaultRule env (rules (listener s)) = Some r"
    and "ls_desired (listener s) = Some d" and "DefaultActions d = Some (Some a # as)"
  shows "snd (needsModification env rOpts s) =
      s\<lparr>listener := (listener s)\<lparr>ls_desired :=
          Some (d\<lparr>DefaultActions :=
            Some (Some (a\<lparr>TargetGroupArn := Rule_TargetGroupArn env r (TargetGroups ro)\<rparr>) # as)\<rparr>)\<rparr>\<rparr>"
  using assms
  by (simp add: needsModification_def Let_def assign_TargetGroupArn_def split: option.splits)

lemma Action_update_eq: "(a = a\<lparr>TargetGroupArn := v\<rparr>) = (TargetGroupArn a = v)"
  by (cases a) auto

lemma create_DefaultActions:
  assumes "rOpts = Some ro" and "ls_desired (listener s) = Some d"
  shows "map_option DefaultActions (ls_desired (listener (snd (create env rOpts s)))) =
     (case DefaultRule env (rules (listener s)) of
        None \<Rightarrow> Some (DefaultActions d)
      | Some r \<Rightarrow>
         (case assign_TargetGroupArn (Some d) (Rule_TargetGroupArn env r (TargetGroups ro)) of
            Inl p \<Rightarrow> Some (DefaultActions d)
          | Inr d' \<Rightarrow> Some (DefaultActions d')))"
  using assms
  by (auto simp: create_def Let_def Eventf_def assign_TargetGroupArn_def
      split: option.splits sum.splits list.splits prod.splits)

lemma needsModification_DefaultActions:
  assumes "rOpts = Some ro" and "ls_desired (listener s) = Some d"
  shows "map_option DefaultActions (ls_desired (listener (snd (needsModification env rOpts s)))) =
     (case DefaultRule env (rules (listener s)) of
        None \<Rightarrow> Some (DefaultActions d)
      | Some r \<Rightarrow>
         (case assign_TargetGroupArn (Some d) (Rule_TargetGroupArn env r (TargetGroups ro)) of
            Inl p \<Rightarrow> Some (DefaultActions d)
          | Inr d' \<Rightarrow> Some (DefaultActions d')))"
  using assms
  by (auto simp: needsModification_def Let_def assign_TargetGroupArn_def
      split: option.splits sum.splits list.splits prod.splits)

text \<open>
  C8. For non-nil options and a desired snapshot, needsModification leaves in desired the
  same default-action list as create does: the first action's target group is the one of
  the rules' default rule, looked up in the options' table. The comparison comes after:
  when current and desired agree on all five fields and the resolved target group is not
  the one recorded, needsModification returns true.
\<close>

theorem needsModification_resolves_like_create:
  "(rOpts = Some ro \<and> ls_desired (listener s) = Some d \<longrightarrow>
      map_option DefaultActions (ls_desired (listener (snd (needsModification env rOpts s)))) =
      map_option DefaultActions (ls_desired (listener (snd (create env rOpts s))))) \<and>
   (rOpts = Some ro \<and> ls_current (listener s) = Some c \<and> ls_desired (listener s) = Some d \<and>
    DefaultRule env (rules (listener s)) = Some r \<and> DefaultActions d = Some (Some a # as) \<longrightarrow>
      map_option DefaultActions (ls_desired (listener (snd (needsModification env rOpts s)))) =
        Some (Some (Some (a\<lparr>TargetGroupArn := Rule_TargetGroupArn env r (TargetGroups ro)\<rparr>) # as)) \<and>
      (fields_equal c d \<and> Rule_TargetGroupArn env r (TargetGroups ro) \<noteq> TargetGroupArn a \<longrightarrow>
         fst (needsModification env rOpts s) = Inr True))"
proof (intro conjI impI)
  assume "rOpts = Some ro \<and> ls_desired (listener s) = Some d"
  then show "map_option DefaultActions (ls_desired (listener (snd (needsModification env rOpts s)))) =
      map_option DefaultActions (ls_desired (listener (snd (create env rOpts s))))"
    by (simp add: create_DefaultActions needsModification_DefaultActions)
next
  assume h: "rOpts = Some ro \<and> ls_current (listener s) = Some c \<and> ls_desired (listener s) = Some d \<and>
    DefaultRule env (rules (listener s)) = Some r \<and> DefaultActions d = Some (Some a # as)"
  then show "map_option DefaultActions (ls_desired (listener (snd (needsModification env rOpts s)))) =
        Some (Some (Some (a\<lparr>TargetGroupArn := Rule_TargetGroupArn env r (TargetGroups ro)\<rparr>) # as))"
    by (simp add: needsModification_writes)
  assume "fields_equal c d \<and> Rule_TargetGroupArn env r (TargetGroups ro) \<noteq> TargetGroupArn a"
  with h show "fst (needsModification env rOpts s) = Inr True"
    by (auto simp: needsModification_def Let_def assign_TargetGroupArn_def fields_equal_def
        DeepEqual_def Action_update_eq)
qed



theorem needsModification_resolves_like_create_witness:
  "fields_equal (snapshot (Some ''arn:listener/1'') (Some ''arn:lb/1'') (Some ''arn:tg/old'') None)
                (snapshot None None (Some ''arn:tg/old'') None) \<and>
   lookup_arn ''svc-a'' (TargetGroups opts1) = Some ''arn:tg/a'' \<and>
   fst (needsModification env_ok (Some opts1)
         (st (Some (snapshot (Some ''arn:listener/1'') (Some ''arn:lb/1'') (Some ''arn:tg/old'') None))
             (Some (snapshot None None (Some ''arn:tg/old'') None)) [''svc-a''])) = Inr True \<and>
   map_option DefaultActions (ls_desired (listener (snd (create env_ok (Some opts1)
         (st (Some (snapshot (Some ''arn:listener/1'') (Some ''arn:lb/1'') (Some ''arn:tg/old'') None))
             (Some (snapshot None None (Some ''arn:tg/old'') None)) [''svc-a''])))))
     = Some (Some [Some \<lparr>TargetGroupArn = Some ''arn:tg/a'', Type = Some ''forward''\<rparr>])"
  using needsModification_resolves_like_create [where rOpts = "Some opts1" and ro = opts1 and env = env_ok
      and s = "st (Some (snapshot (Some ''arn:listener/1'') (Some ''arn:lb/1'') (Some ''arn:tg/old'') None))
             (Some (snapshot None None (Some ''arn:tg/old'') None)) [''svc-a'']"
      and c = "snapshot (Some ''arn:listener/1'') (Some ''arn:lb/1'') (Some ''arn:tg/old'') None"
      and d = "snapshot None None (Some ''arn:tg/old'') None" and r = "''svc-a''"
      and a = "\<lparr>TargetGroupArn = Some ''arn:tg/old'', Type = Some ''forward''\<rparr>" and as = "[]"]
  by (simp add: fixture_defs fields_equal_def DeepEqual_def needsModification_def create_def
      assign_TargetGroupArn_def slice_index_def)

text \<open>
  C9. With non-nil options and a default rule, needsModification writes the resolved
  target group into the first default action of desired, and changes nothing else. When
  it then returns false, Reconcile returns nil with that written state: no call, no
  event, but a desired snapshot that may differ from the one before.
\<close>

theorem needsModification_not_observation_only:
  "rOpts = Some ro \<and> DefaultRule env (rules (listener s)) = Some r \<and>
   ls_desired (listener s) = Some d \<and> DefaultActions d = Some (Some a # as) \<longrightarrow>
     snd (needsModification env rOpts s) =
       s\<lparr>listener := (listener s)\<lparr>ls_desired :=
           Some (d\<lparr>DefaultActions :=
             Some (Some (a\<lparr>TargetGroupArn := Rule_TargetGroupArn env r (TargetGroups ro)\<rparr>) # as)\<rparr>)\<rparr>\<rparr> \<and>
     (ls_current (listener s) \<noteq> None \<and> fst (needsModification env rOpts s) = Inr False \<longrightarrow>
        Reconcile env rOpts s =
          (Inr None,
           s\<lparr>listener := (listener s)\<lparr>ls_desired :=
               Some (d\<lparr>DefaultActions :=
                 Some (Some (a\<lparr>TargetGroupArn := Rule_TargetGroupArn env r (TargetGroups ro)\<rparr>) # as)\<rparr>)\<rparr>\<rparr>))"
proof (intro impI conjI)
  assume h: "rOpts = Some ro \<and> DefaultRule env (rules (listener s)) = Some r \<and>
   ls_desired (listener s) = Some d \<and> DefaultActions d = Some (Some a # as)"
  then show w: "snd (needsModification env rOpts s) =
       s\<lparr>listener := (listener s)\<lparr>ls_desired :=
           Some (d\<lparr>DefaultActions :=
             Some (Some (a\<lparr>TargetGroupArn := Rule_TargetGroupArn env r (TargetGroups ro)\<rparr>) # as)\<rparr>)\<rparr>\<rparr>"
    by (simp add: needsModification_writes)
  assume n: "ls_current (listener s) \<noteq> None \<and> fst (needsModification env rOpts s) = Inr False"
  then obtain c where c: "ls_current (listener s) = Some c" by auto
  from n w have "needsModification env rOpts s = (Inr False, 
       s\<lparr>listener := (listener s)\<lparr>ls_desired :=
           Some (d\<lparr>DefaultActions :=
             Some (Some (a\<lparr>TargetGroupArn := Rule_TargetGroupArn env r (TargetGroups ro)\<rparr>) # as)\<rparr>)\<rparr>\<rparr>)"
    by (metis prod.collapse)
  with c h show "Reconcile env rOpts s =
          (Inr None,
           s\<lparr>listener := (listener s)\<lparr>ls_desired :=
               Some (d\<lparr>DefaultActions :=
                 Some (Some (a\<lparr>TargetGroupArn := Rule_TargetGroupArn env r (TargetGroups ro)\<rparr>) # as)\<rparr>)\<rparr>\<rparr>)"
    using Reconcile_noop by blast
qed

theorem needsModification_not_observation_only_witness:
  "fst (needsModification env_ok (Some opts1)
         (st (Some (snapshot (Some ''arn:listener/1'') (Some ''arn:lb/1'') (Some ''arn:tg/a'') None))
             (Some (snapshot None None None None)) [''svc-a''])) = Inr False \<and>
   Reconcile env_ok (Some opts1)
         (st (Some (snapshot (Some ''arn:listener/1'') (Some ''arn:lb/1'') (Some ''arn:tg/a'') None))
             (Some (snapshot None None None None)) [''svc-a'']) =
     (Inr None,
      st (Some (snapshot (Some ''arn:listener/1'') (Some ''arn:lb/1'') (Some ''arn:tg/a'') None))
         (Some (snapshot None None (Some ''arn:tg/a'') None)) [''svc-a'']) \<and>
   snapshot None None (Some ''arn:tg/a'') None \<noteq> snapshot None None None None"
proof -
  have f: "fst (needsModification env_ok (Some opts1)
         (st (Some (snapshot (Some ''arn:listener/1'') (Some ''arn:lb/1'') (Some ''arn:tg/a'') None))
             (Some (snapshot None None None None)) [''svc-a''])) = Inr False"
    by (simp add: fixture_defs needsModification_def assign_TargetGroupArn_def DeepEqual_def)
  show ?thesis
    using f needsModification_not_observation_only [where rOpts = "Some opts1" and ro = opts1
      and s = "st (Some (snapshot (Some ''arn:listener/1'') (Some ''arn:lb/1'') (Some ''arn:tg/a'') None))
             (Some (snapshot None None None None)) [''svc-a'']" and env = env_ok and r = "''svc-a''"
      and d = "snapshot None None None None"
      and a = "\<lparr>TargetGroupArn = None, Type = Some ''forward''\<rparr>" and as = "[]"]
    by (simp add: fixture_defs)
qed

section \<open>Where the diff is well defined\<close>

lemma NewDesiredListener_has_default_action:
  "NewDesiredListener (Some o1) = Inr l \<Longrightarrow> desired_has_default_action l"
  by (auto simp: NewDesiredListener_def Let_def desired_has_default_action_def has_default_action_def)

lemma needsModification_keeps_default_action:
  "ls_desired (listener s) = Some d \<Longrightarrow> has_default_action d \<Longrightarrow>
   desired_has_default_action (listener (snd (needsModification env rOpts s)))"
  by (auto simp: needsModification_def Let_def desired_has_default_action_def has_default_action_def
       assign_TargetGroupArn_def split: option.splits list.splits)

lemma needsModification_defined_only:
  "fst (needsModification env rOpts s) = Inr b \<Longrightarrow>
   rOpts = None \<or> DefaultRule env (rules (listener s)) = None \<or>
   (\<exists>d. ls_desired (listener s) = Some d \<and> has_default_action d)"
  by (auto simp: needsModification_def Let_def has_default_action_def
       assign_TargetGroupArn_def split: option.splits list.splits sum.splits)

lemma needsModification_nil_desired:
  "rOpts \<noteq> None \<Longrightarrow> DefaultRule env (rules (listener s)) \<noteq> None \<Longrightarrow> ls_desired (listener s) = None \<Longrightarrow>
   needsModification env rOpts s = (Inl NilDereference, s)"
  by (auto simp: needsModification_def Let_def assign_TargetGroupArn_def)

text \<open>
  C10. needsModification assigns through \<^verbatim>\<open>desired.DefaultActions[0]\<close> before its nil
  checks. So when it returns, the options were nil, or the rules had no default rule, or
  desired was present with its first default action; and with non-nil options, a default
  rule and no desired snapshot it panics, even where current is absent too. Reconcile
  does not reach it with desired absent: it returns nil when current is absent as well,
  and issues the remove call otherwise. Where Reconcile does reach it, with both sides
  present, a desired snapshot that carries its default action makes it return, and keeps
  carrying it afterwards; every snapshot built by NewDesiredListener carries one.
\<close>

theorem needsModification_precondition:
  "((\<exists>b. fst (needsModification env rOpts (s :: 'rule state)) = Inr b) \<longrightarrow>
      rOpts = None \<or> DefaultRule env (rules (listener s)) = None \<or>
      (\<exists>d. ls_desired (listener s) = Some d \<and> has_default_action d)) \<and>
   (rOpts \<noteq> None \<and> DefaultRule env (rules (listener s)) \<noteq> None \<and> ls_desired (listener s) = None \<longrightarrow>
      needsModification env rOpts s = (Inl NilDereference, s)) \<and>
   (ls_desired (listener s) = None \<and> ls_current (listener s) = None \<longrightarrow>
      Reconcile env rOpts s = (Inr None, s)) \<and>
   (\<forall>c. ls_desired (listener s) = None \<and> ls_current (listener s) = Some c \<longrightarrow>
      calls (snd (Reconcile env rOpts s)) = calls s @ [RemoveListenerCall (ListenerArn c)]) \<and>
   (\<forall>d. ls_current (listener s) \<noteq> None \<and> ls_desired (listener s) = Some d \<and> has_default_action d \<longrightarrow>
      (\<exists>b. fst (needsModification env rOpts s) = Inr b) \<and>
      desired_has_default_action (listener (snd (needsModification env rOpts s)))) \<and>
   (\<forall>o1 l. NewDesiredListener (Some o1) = Inr (l :: 'rule Listener) \<longrightarrow> desired_has_default_action l)"
proof (intro conjI allI impI)
  assume "\<exists>b. fst (needsModification env rOpts s) = Inr b"
  then show "rOpts = None \<or> DefaultRule env (rules (listener s)) = None \<or>
      (\<exists>d. ls_desired (listener s) = Some d \<and> has_default_action d)"
    using needsModification_defined_only by blast
next
  assume "rOpts \<noteq> None \<and> DefaultRule env (rules (listener s)) \<noteq> None \<and>
    ls_desired (listener s) = None"
  then show "needsModification env rOpts s = (Inl NilDereference, s)"
    by (simp add: needsModification_nil_desired)
next
  assume "ls_desired (listener s) = None \<and> ls_current (listener s) = None"
  then show "Reconcile env rOpts s = (Inr None, s)"
    by (simp add: Reconcile_both_absent)
next
  fix c
  assume "ls_desired (listener s) = None \<and> ls_current (listener s) = Some c"
  then show "calls (snd (Reconcile env rOpts s)) = calls s @ [RemoveListenerCall (ListenerArn c)]"
    by (simp add: Reconcile_delete_calls)
next
  fix d
  assume "ls_current (listener s) \<noteq> None \<and> ls_desired (listener s) = Some d \<and>
    has_default_action d"
  then show "\<exists>b. fst (needsModification env rOpts s) = Inr b"
    using needsModification_returns by blast
next
  fix d
  assume "ls_current (listener s) \<noteq> None \<and> ls_desired (listener s) = Some d \<and>
    has_default_action d"
  then show "desired_has_default_action (listener (snd (needsModification env rOpts s)))"
    using needsModification_keeps_default_action by blast
next
  fix o1 and l :: "'rule Listener"
  assume "NewDesiredListener (Some o1) = Inr l"
  then show "desired_has_default_action l"
    by (rule NewDesiredListener_has_default_action)
qed



theorem needsModification_precondition_witness:
  "needsModification env_ok (Some opts1) (st None None [''svc-a'']) =
     (Inl NilDereference, st None None [''svc-a'']) \<and>
   Reconcile env_ok (Some opts1) (st None None [''svc-a'']) = (Inr None, st None None [''svc-a'']) \<and>
   has_default_action (snapshot None None None None) \<and>
   fst (needsModification env_ok (Some opts1)
         (st (Some (snapshot (Some ''arn:listener/1'') (Some ''arn:lb/1'') (Some ''arn:tg/a'') None))
             (Some (snapshot None None None None)) [''svc-a''])) = Inr False"
  using needsModification_precondition [where rOpts = "Some opts1" and env = env_ok
      and s = "st None None [''svc-a'']"]
    needsModification_precondition [where rOpts = "Some opts1" and env = env_ok
      and s = "st (Some (snapshot (Some ''arn:listener/1'') (Some ''arn:lb/1'') (Some ''arn:tg/a'') None))
             (Some (snapshot None None None None)) [''svc-a'']"]
  by (simp add: fixture_defs has_default_action_def needsModification_def assign_TargetGroupArn_def
      DeepEqual_def)

section \<open>Failing control-plane calls\<close>

lemma create_failure:
  assumes "rOpts = Some ro" and "ls_desired (listener s) = Some d" and "has_default_action d"
    and "Port d \<noteq> None"
  shows "\<exists>inp. calls (snd (create env rOpts s)) = calls s @ [CreateListenerCall inp] \<and>
       (\<forall>err. snd (CreateListener env inp) = Some err \<longrightarrow>
          fst (create env rOpts s) = Inr (Some err) \<and>
          ls_current (listener (snd (create env rOpts s))) = ls_current (listener s) \<and>
          deleted (listener (snd (create env rOpts s))) = deleted (listener s) \<and>
          rules (listener (snd (create env rOpts s))) = rules (listener s) \<and>
          map_option LoadBalancerArn (ls_desired (listener (snd (create env rOpts s)))) =
            Some (ro_LoadBalancerArn ro))"
  using assms
  by (auto simp: create_def Let_def Eventf_def has_default_action_def assign_TargetGroupArn_def
        slice_index_def
      split: option.splits sum.splits list.splits prod.splits)

lemma modify_failure:
  assumes "rOpts = Some ro" and "ls_current (listener s) = Some c" and "ls_desired (listener s) = Some d"
    and "Port d \<noteq> None"
    and "snd (ModifyListener env
               \<lparr>mli_ListenerArn = ListenerArn c, mli_Certificates = Certificates d,
                mli_Port = Port d, mli_Protocol = Protocol d, mli_SslPolicy = SslPolicy d,
                mli_DefaultActions = DefaultActions d\<rparr>) = Some err"
  shows "fst (modify env rOpts s) = Inr (Some err) \<and> listener (snd (modify env rOpts s)) = listener s"
  using assms
  by (auto simp: modify_def Let_def Eventf_def split: option.splits prod.splits)

lemma delete_failure:
  assumes "rOpts = Some ro" and "ls_current (listener s) = Some c"
    and "Port c \<noteq> None" and "ListenerArn c \<noteq> None"
    and "RemoveListener env (ListenerArn c) = Some err"
  shows "fst (delete env rOpts s) = Inr (Some err) \<and> listener (snd (delete env rOpts s)) = listener s"
  using assms
  by (auto simp: delete_def Let_def Eventf_def split: option.splits prod.splits)

text \<open>
  C2, as stated, fails for create: before it issues the request it writes the load
  balancer's ARN into desired, so a refused request leaves a listener that differs from
  the one before the call.
\<close>

theorem create_failure_changes_desired_counterexample:
  "create env_failing (Some opts1) (st None (Some (snapshot None None None None)) []) =
     (Inr (Some ''AccessDenied''),
      \<lparr>listener =
         \<lparr>ls_current = None, ls_desired = Some (snapshot None (Some ''arn:lb/1'') None None),
          rules = [], deleted = False\<rparr>,
       calls =
         [CreateListenerCall
            \<lparr>cli_Certificates = Some [Some \<lparr>CertificateArn = Some ''cert-1''\<rparr>],
             cli_LoadBalancerArn = Some ''arn:lb/1'',
             cli_Protocol = Some ''HTTPS'',
             cli_Port = Some 443,
             cli_SslPolicy = None,
             cli_DefaultActions = Some [Some \<lparr>TargetGroupArn = None, Type = Some ''forward''\<rparr>]\<rparr>],
       events =
         [Event ''Warning'' ''ERROR'' ''Error creating %v listener: %s''
            [ArgInt 443, ArgStr ''AccessDenied'']]\<rparr>) \<and>
   listener (snd (create env_failing (Some opts1) (st None (Some (snapshot None None None None)) [])))
     \<noteq> listener (st None (Some (snapshot None None None None)) [])"
  by (simp add: fixture_defs create_def assign_TargetGroupArn_def slice_index_def Eventf_def
      EventTypeWarning_def)

text \<open>
  C2, amended. When the control-plane call fails, on snapshots that carry their port
  (and, for delete, their ARN) and with non-nil options, create, modify and delete return
  the control plane's error unchanged. modify and delete leave the listener as it was.
  create leaves current, the deleted flag and the rules as they were; desired keeps the
  load balancer's ARN that create wrote before the request.
\<close>

theorem failure_keeps_current:
  "(rOpts = Some ro \<and> ls_desired (listener s) = Some d \<and> has_default_action d \<and> Port d \<noteq> None \<longrightarrow>
      (\<exists>inp. calls (snd (create env rOpts s)) = calls s @ [CreateListenerCall inp] \<and>
         (\<forall>err. snd (CreateListener env inp) = Some err \<longrightarrow>
            fst (create env rOpts s) = Inr (Some err) \<and>
            ls_current (listener (snd (create env rOpts s))) = ls_current (listener s) \<and>
            deleted (listener (snd (create env rOpts s))) = deleted (listener s) \<and>
            rules (listener (snd (create env rOpts s))) = rules (listener s) \<and>
            map_option LoadBalancerArn (ls_desired (listener (snd (create env rOpts s)))) =
              Some (ro_LoadBalancerArn ro)))) \<and>
   (rOpts = Some ro \<and> ls_current (listener s) = Some c \<and> ls_desired (listener s) = Some d \<and>
    Port d \<noteq> None \<and>
    snd (ModifyListener env
           \<lparr>mli_ListenerArn = ListenerArn c, mli_Certificates = Certificates d,
            mli_Port = Port d, mli_Protocol = Protocol d, mli_SslPolicy = SslPolicy d,
            mli_DefaultActions = DefaultActions d\<rparr>) = Some err \<longrightarrow>
      fst (modify env rOpts s) = Inr (Some err) \<and>
      listener (snd (modify env rOpts s)) = listener s) \<and>
   (rOpts = Some ro \<and> ls_current (listener s) = Some c \<and> Port c \<noteq> None \<and> ListenerArn c \<noteq> None \<and>
    RemoveListener env (ListenerArn c) = Some err \<longrightarrow>
      fst (delete env rOpts s) = Inr (Some err) \<and>
      listener (snd (delete env rOpts s)) = listener s)"
  using create_failure[of rOpts ro s d env] modify_failure[of rOpts ro s c d env err]
    delete_failure[of rOpts ro s c env err]
  by (intro conjI impI) (simp_all only: simp_thms)

theorem failure_keeps_current_witness:
  "fst (create env_failing (Some opts1) (st None (Some (snapshot None None None None)) [''svc-a''])) =
     Inr (Some ''AccessDenied'') \<and>
   ls_current (listener (snd (create env_failing (Some opts1)
       (st None (Some (snapshot None None None None)) [''svc-a''])))) = None \<and>
   modify env_failing (Some opts1)
       (st (Some (snapshot (Some ''arn:listener/1'') (Some ''arn:lb/1'') (Some ''arn:tg/a'') None))
           (Some (snapshot None None (Some ''arn:tg/a'') (Some ''ELBSecurityPolicy-2016-08''))) []) =
     (Inr (Some ''AccessDenied''),
      \<lparr>listener =
         \<lparr>ls_current = Some (snapshot (Some ''arn:listener/1'') (Some ''arn:lb/1'') (Some ''arn:tg/a'') None),
          ls_desired = Some (snapshot None None (Some ''arn:tg/a'') (Some ''ELBSecurityPolicy-2016-08'')),
          rules = [], deleted = False\<rparr>,
       calls =
         [ModifyListenerCall
            \<lparr>mli_ListenerArn = Some ''arn:listener/1'',
             mli_Certificates = Some [Some \<lparr>CertificateArn = Some ''cert-1''\<rparr>],
             mli_Port = Some 443,
             mli_Protocol = Some ''HTTPS'',
             mli_SslPolicy = Some ''ELBSecurityPolicy-2016-08'',
             mli_DefaultActions =
               Some [Some \<lparr>TargetGroupArn = Some ''arn:tg/a'', Type = Some ''forward''\<rparr>]\<rparr>],
       events =
         [Event ''Warning'' ''ERROR'' ''Error modifying %v listener: %s''
            [ArgInt 443, ArgStr ''AccessDenied'']]\<rparr>) \<and>
   fst (delete env_failing (Some opts1)
       (st (Some (snapshot (Some ''arn:listener/1'') (Some ''arn:lb/1'') (Some ''arn:tg/a'') None)) None [])) =
     Inr (Some ''AccessDenied'') \<and>
   listener (snd (delete env_failing (Some opts1)
       (st (Some (snapshot (Some ''arn:listener/1'') (Some ''arn:lb/1'') (Some ''arn:tg/a'') None)) None []))) =
     listener (st (Some (snapshot (Some ''arn:listener/1'') (Some ''arn:lb/1'') (Some ''arn:tg/a'') None)) None [])"
  using failure_keeps_current [where rOpts = "Some opts1" and ro = opts1 and env = env_failing
      and s = "st None (Some (snapshot None None None None)) [''svc-a'']"
      and d = "snapshot None None None None"]
    failure_keeps_current [where rOpts = "Some opts1" and ro = opts1 and env = env_failing
      and s = "st (Some (snapshot (Some ''arn:listener/1'') (Some ''arn:lb/1'') (Some ''arn:tg/a'') None))
           (Some (snapshot None None (Some ''arn:tg/a'') (Some ''ELBSecurityPolicy-2016-08''))) []"
      and c = "snapshot (Some ''arn:listener/1'') (Some ''arn:lb/1'') (Some ''arn:tg/a'') None"
      and d = "snapshot None None (Some ''arn:tg/a'') (Some ''ELBSecurityPolicy-2016-08'')"
      and err = "''AccessDenied''"]
    failure_keeps_current [where rOpts = "Some opts1" and ro = opts1 and env = env_failing
      and s = "st (Some (snapshot (Some ''arn:listener/1'') (Some ''arn:lb/1'') (Some ''arn:tg/a'') None)) None []"
      and c = "snapshot (Some ''arn:listener/1'') (Some ''arn:lb/1'') (Some ''arn:tg/a'') None"
      and err = "''AccessDenied''"]
  by (simp add: fixture_defs create_def modify_def delete_def assign_TargetGroupArn_def slice_index_def
      Eventf_def EventTypeWarning_def has_default_action_def)

section \<open>The outcome of create\<close>

lemma Action_eta: "\<lparr>TargetGroupArn = TargetGroupArn a, Type = Type a\<rparr> = (a :: Action)"
  by (cases a) simp

lemma create_decided:
  assumes "rOpts = Some ro" and "ls_desired (listener s) = Some d" and "has_default_action d"
  shows "\<exists>inp d'. calls (snd (create env rOpts s)) = calls s @ [CreateListenerCall inp] \<and>
       ls_desired (listener (snd (create env rOpts s))) = Some d' \<and>
       cli_Certificates inp = Certificates d' \<and> cli_LoadBalancerArn inp = LoadBalancerArn d' \<and>
       cli_Protocol inp = Protocol d' \<and> cli_Port inp = Port d' \<and> cli_SslPolicy inp = SslPolicy d' \<and>
       cli_DefaultActions inp = map_option (take 1) (DefaultActions d') \<and>
       LoadBalancerArn d' = ro_LoadBalancerArn ro \<and> Port d' = Port d \<and>
       deleted (listener (snd (create env rOpts s))) = deleted (listener s) \<and>
       rules (listener (snd (create env rOpts s))) = rules (listener s) \<and>
       (\<forall>out x xs. CreateListener env inp = (Some out, None) \<and> clo_Listeners out = x # xs \<longrightarrow>
          fst (create env rOpts s) = Inr None \<and>
          ls_current (listener (snd (create env rOpts s))) = x) \<and>
       (\<forall>err. snd (CreateListener env inp) = Some err \<and> Port d \<noteq> None \<longrightarrow>
          fst (create env rOpts s) = Inr (Some err) \<and>
          ls_current (listener (snd (create env rOpts s))) = ls_current (listener s))"
  using assms
  by (auto simp: create_def Let_def Eventf_def has_default_action_def assign_TargetGroupArn_def
        slice_index_def Action_eta
      split: option.splits sum.splits list.splits prod.splits)

text \<open>
  C4, as stated, fails in its last part: a create whose request is refused has already
  written the load balancer's ARN and the resolved target group into desired.
\<close>

theorem failed_create_keeps_target_group_counterexample:
  "fst (create env_failing (Some opts1) (st None (Some (snapshot None None None None)) [''svc-a''])) =
     Inr (Some ''AccessDenied'') \<and>
   ls_desired (listener (snd (create env_failing (Some opts1)
        (st None (Some (snapshot None None None None)) [''svc-a''])))) =
     Some (snapshot None (Some ''arn:lb/1'') (Some ''arn:tg/a'') None) \<and>
   ls_desired (listener (st None (Some (snapshot None None None None)) [''svc-a''])) =
     Some (snapshot None None None None) \<and>
   snapshot None (Some ''arn:lb/1'') (Some ''arn:tg/a'') None \<noteq> snapshot None None None None"
  by (simp add: fixture_defs create_def assign_TargetGroupArn_def slice_index_def Eventf_def
      EventTypeWarning_def)

text \<open>
  C4, amended. With current absent and desired present (carrying its default action),
  create issues one request, built from desired as resolved. When the control plane
  answers without error, create returns nil and current is the first snapshot of the
  answer; if that snapshot echoes the request, current has a non-empty ARN and desired's
  port, protocol, certificates, SSL policy, load balancer and first default action. When
  the control plane refuses, create returns its error, current stays absent, and the
  deleted flag and the rules are as before; desired keeps what was written before the
  request.
\<close>

theorem create_replaces_current:
  "rOpts = Some ro \<and> ls_current (listener s) = None \<and> ls_desired (listener s) = Some d \<and>
   has_default_action d \<longrightarrow>
     (\<exists>inp d'. calls (snd (create env rOpts s)) = calls s @ [CreateListenerCall inp] \<and>
        ls_desired (listener (snd (create env rOpts s))) = Some d' \<and>
        (\<forall>out x xs. CreateListener env inp = (Some out, None) \<and> clo_Listeners out = x # xs \<longrightarrow>
           fst (create env rOpts s) = Inr None \<and>
           ls_current (listener (snd (create env rOpts s))) = x \<and>
           (\<forall>e. x = Some e \<and> echoes inp e \<longrightarrow>
              ListenerArn e \<noteq> None \<and> ListenerArn e \<noteq> Some [] \<and>
              Port e = Port d' \<and> Protocol e = Protocol d' \<and>
              Certificates e = Certificates d' \<and> SslPolicy e = SslPolicy d' \<and>
              LoadBalancerArn e = LoadBalancerArn d' \<and>
              DefaultActions e = map_option (take 1) (DefaultActions d'))) \<and>
        (\<forall>err. snd (CreateListener env inp) = Some err \<and> Port d \<noteq> None \<longrightarrow>
           fst (create env rOpts s) = Inr (Some err) \<and>
           ls_current (listener (snd (create env rOpts s))) = None \<and>
           deleted (listener (snd (create env rOpts s))) = deleted (listener s) \<and>
           rules (listener (snd (create env rOpts s))) = rules (listener s)))"
proof (intro impI)
  assume h: "rOpts = Some ro \<and> ls_current (listener s) = None \<and> ls_desired (listener s) = Some d \<and>
   has_default_action d"
  then obtain inp d' where
    c: "calls (snd (create env rOpts s)) = calls s @ [CreateListenerCall inp]" and
    d: "ls_desired (listener (snd (create env rOpts s))) = Some d'" and
    m: "cli_Certificates inp = Certificates d'" "cli_LoadBalancerArn inp = LoadBalancerArn d'"
       "cli_Protocol inp = Protocol d'" "cli_Port inp = Port d'" "cli_SslPolicy inp = SslPolicy d'"
       "cli_DefaultActions inp = map_option (take 1) (DefaultActions d')" and
    f: "deleted (listener (snd (create env rOpts s))) = deleted (listener s)"
       "rules (listener (snd (create env rOpts s))) = rules (listener s)" and
    ok: "\<forall>out x xs. CreateListener env inp = (Some out, None) \<and> clo_Listeners out = x # xs \<longrightarrow>
          fst (create env rOpts s) = Inr None \<and>
          ls_current (listener (snd (create env rOpts s))) = x" and
    ko: "\<forall>err. snd (CreateListener env inp) = Some err \<and> Port d \<noteq> None \<longrightarrow>
          fst (create env rOpts s) = Inr (Some err) \<and>
          ls_current (listener (snd (create env rOpts s))) = ls_current (listener s)"
    using create_decided[of rOpts ro s d env] by blast
  have mirror: "\<forall>e. echoes inp e \<longrightarrow>
              ListenerArn e \<noteq> None \<and> ListenerArn e \<noteq> Some [] \<and>
              Port e = Port d' \<and> Protocol e = Protocol d' \<and>
              Certificates e = Certificates d' \<and> SslPolicy e = SslPolicy d' \<and>
              LoadBalancerArn e = LoadBalancerArn d' \<and>
              DefaultActions e = map_option (take 1) (DefaultActions d')"
    using m by (simp add: echoes_def)
  show "\<exists>inp d'. calls (snd (create env rOpts s)) = calls s @ [CreateListenerCall inp] \<and>
        ls_desired (listener (snd (create env rOpts s))) = Some d' \<and>
        (\<forall>out x xs. CreateListener env inp = (Some out, None) \<and> clo_Listeners out = x # xs \<longrightarrow>
           fst (create env rOpts s) = Inr None \<and>
           ls_current (listener (snd (create env rOpts s))) = x \<and>
           (\<forall>e. x = Some e \<and> echoes inp e \<longrightarrow>
              ListenerArn e \<noteq> None \<and> ListenerArn e \<noteq> Some [] \<and>
              Port e = Port d' \<and> Protocol e = Protocol d' \<and>
              Certificates e = Certificates d' \<and> SslPolicy e = SslPolicy d' \<and>
              LoadBalancerArn e = LoadBalancerArn d' \<and>
              DefaultActions e = map_option (take 1) (DefaultActions d'))) \<and>
        (\<forall>err. snd (CreateListener env inp) = Some err \<and> Port d \<noteq> None \<longrightarrow>
           fst (create env rOpts s) = Inr (Some err) \<and>
           ls_current (listener (snd (create env rOpts s))) = None \<and>
           deleted (listener (snd (create env rOpts s))) = deleted (listener s) \<and>
           rules (listener (snd (create env rOpts s))) = rules (listener s))"
    apply (rule exI[of _ inp])
    apply (rule exI[of _ d'])
    using c d f ok ko mirror h by auto
qed

theorem create_replaces_current_witness:
  "create env_ok (Some opts1) (st None (Some (snapshot None None None None)) [''svc-a'']) =
     (Inr None,
      \<lparr>listener =
         \<lparr>ls_current = Some (snapshot (Some ''arn:listener/1'') (Some ''arn:lb/1'') (Some ''arn:tg/a'') None),
          ls_desired = Some (snapshot None (Some ''arn:lb/1'') (Some ''arn:tg/a'') None),
          rules = [''svc-a''], deleted = False\<rparr>,
       calls =
         [CreateListenerCall
            \<lparr>cli_Certificates = Some [Some \<lparr>CertificateArn = Some ''cert-1''\<rparr>],
             cli_LoadBalancerArn = Some ''arn:lb/1'',
             cli_Protocol = Some ''HTTPS'',
             cli_Port = Some 443,
             cli_SslPolicy = None,
             cli_DefaultActions =
               Some [Some \<lparr>TargetGroupArn = Some ''arn:tg/a'', Type = Some ''forward''\<rparr>]\<rparr>],
       events = []\<rparr>) \<and>
   echoes
     \<lparr>cli_Certificates = Some [Some \<lparr>CertificateArn = Some ''cert-1''\<rparr>],
      cli_LoadBalancerArn = Some ''arn:lb/1'',
      cli_Protocol = Some ''HTTPS'',
      cli_Port = Some 443,
      cli_SslPolicy = None,
      cli_DefaultActions =
        Some [Some \<lparr>TargetGroupArn = Some ''arn:tg/a'', Type = Some ''forward''\<rparr>]\<rparr>
     (snapshot (Some ''arn:listener/1'') (Some ''arn:lb/1'') (Some ''arn:tg/a'') None)"
  using create_replaces_current [where rOpts = "Some opts1" and ro = opts1 and env = env_ok
      and s = "st None (Some (snapshot None None None None)) [''svc-a'']"
      and d = "snapshot None None None None"]
  by (simp add: fixture_defs create_def assign_TargetGroupArn_def slice_index_def echoes_def)

end
